theory Spec2Isabelle
  imports Complex_Main "HOL-Library.Log_Nat" "HOL-Library.Sublist"
begin

section \<open>Python values\<close>

text \<open>
  A Python \<open>str\<close> is a sequence of Unicode code points; a code point is a natural
  number. \<open>str ''abc''\<close> is the \<open>str\<close> of an ASCII literal.
\<close>

type_synonym py_str = "nat list"

definition str :: "string \<Rightarrow> py_str" where
  "str s = map of_char s"

text \<open>
  The objects that \<open>response.json()\<close> builds, which are all the objects this program
  handles: \<open>None\<close>, \<open>bool\<close>, \<open>int\<close>, \<open>float\<close>, \<open>str\<close>, \<open>list\<close> and \<open>dict\<close> (keys
  in insertion order, each key once). A \<open>float\<close> is held by its exact value; the
  non-finite floats are not modelled.
\<close>

datatype json =
    JNull
  | JBool bool
  | JInt int
  | JFloat rat
  | JStr py_str
  | JArr "json list"
  | JObj "(py_str \<times> json) list"

text \<open>The exceptions that the program's own statements raise.\<close>

datatype exn =
    KeyError | IndexError | TypeError | AttributeError | ValueError | OverflowError
  | UnicodeEncodeError

text \<open>\<open>bool(x)\<close>, as \<open>if not x\<close> and \<open>x or y\<close> read it.\<close>

fun truthy :: "json \<Rightarrow> bool" where
  "truthy JNull = False"
| "truthy (JBool b) = b"
| "truthy (JInt i) = (i \<noteq> 0)"
| "truthy (JFloat q) = (q \<noteq> 0)"
| "truthy (JStr s) = (s \<noteq> [])"
| "truthy (JArr xs) = (xs \<noteq> [])"
| "truthy (JObj kvs) = (kvs \<noteq> [])"

text \<open>\<open>x[k]\<close> for a string literal \<open>k\<close>.\<close>

fun getitem :: "json \<Rightarrow> py_str \<Rightarrow> exn + json" where
  "getitem (JObj kvs) k = (case map_of kvs k of None \<Rightarrow> Inl KeyError | Some v \<Rightarrow> Inr v)"
| "getitem _ k = Inl TypeError"

text \<open>\<open>x[0]\<close>. The keys of a decoded JSON object are strings, so \<open>0\<close> is never one.\<close>

fun getitem0 :: "json \<Rightarrow> exn + json" where
  "getitem0 (JArr xs) = (case xs of [] \<Rightarrow> Inl IndexError | x # _ \<Rightarrow> Inr x)"
| "getitem0 (JStr s) = (case s of [] \<Rightarrow> Inl IndexError | c # _ \<Rightarrow> Inr (JStr [c]))"
| "getitem0 (JObj kvs) = Inl KeyError"
| "getitem0 _ = Inl TypeError"

text \<open>\<open>x.get(k, default)\<close>: only a \<open>dict\<close> has the method.\<close>

fun dict_get :: "json \<Rightarrow> py_str \<Rightarrow> json \<Rightarrow> exn + json" where
  "dict_get (JObj kvs) k dflt = (case map_of kvs k of None \<Rightarrow> Inr dflt | Some v \<Rightarrow> Inr v)"
| "dict_get _ k dflt = Inl AttributeError"

text \<open>The items that \<open>for child in x\<close> visits.\<close>

fun iterate :: "json \<Rightarrow> exn + json list" where
  "iterate (JArr xs) = Inr xs"
| "iterate (JObj kvs) = Inr (map (\<lambda>kv. JStr (fst kv)) kvs)"
| "iterate (JStr s) = Inr (map (\<lambda>c. JStr [c]) s)"
| "iterate _ = Inl TypeError"

text \<open>Sequencing of statements that may raise.\<close>

fun and_then :: "exn + 'a \<Rightarrow> ('a \<Rightarrow> exn + 'b) \<Rightarrow> exn + 'b" where
  "and_then (Inl e) f = Inl e"
| "and_then (Inr x) f = f x"

section \<open>The network and the process state\<close>

text \<open>
  The three requests the program sends. The request records the arguments that build
  the URL and the payload, not the rendered text.
\<close>

datatype request =
    SearchReq py_str py_str
  | EquityReq json py_str
  | PageReq py_str json py_str

text \<open>
  What a \<open>try\<close> block around \<open>session.post\<close>, \<open>raise_for_status\<close> and \<open>json()\<close> sees:
  a \<open>requests.exceptions.RequestException\<close> (transport, timeout, status, and a body
  that is not JSON), or the decoded body. For a page, the text of the response.
\<close>

datatype 'a reply = RequestException | Body 'a

text \<open>What \<open>BeautifulSoup(relevant_html, "lxml").find("a", href=True)\<close> gives.\<close>

datatype anchor = ParserRaised | NoAnchor | Href py_str

text \<open>How \<open>str.isdigit\<close> and \<open>float\<close> read a code point outside ASCII.\<close>

datatype digit_class = Decimal nat | OtherDigit | NoDigit

text \<open>
  Everything outside the program. A reply may depend on the number of requests made
  before it. For the fan-out that starts after so many requests, \<open>thread_schedule\<close>
  chooses which worker thread takes the next step, and \<open>as_completed_order\<close> the
  order in which the futures are yielded, as choices among those still pending.
\<close>

record world =
  post_search :: "nat \<Rightarrow> request \<Rightarrow> json reply"
  post_equity :: "nat \<Rightarrow> request \<Rightarrow> json reply"
  get_page :: "nat \<Rightarrow> request \<Rightarrow> py_str reply"
  soup_find_a :: "py_str \<Rightarrow> anchor"
  unicode_digit :: "nat \<Rightarrow> digit_class"
  thread_schedule :: "nat \<Rightarrow> nat list"
  as_completed_order :: "nat \<Rightarrow> nat list"

text \<open>A key of the \<open>lru_cache\<close>: hashable arguments, equal as Python compares them.\<close>

datatype hkey = KNone | KNum rat | KStr py_str

fun hash_key :: "json \<Rightarrow> exn + hkey" where
  "hash_key JNull = Inr KNone"
| "hash_key (JBool b) = Inr (KNum (if b then 1 else 0))"
| "hash_key (JInt i) = Inr (KNum (of_int i))"
| "hash_key (JFloat q) = Inr (KNum q)"
| "hash_key (JStr s) = Inr (KStr s)"
| "hash_key (JArr xs) = Inl TypeError"
| "hash_key (JObj kvs) = Inl TypeError"

type_synonym cache_key = "hkey \<times> hkey \<times> py_str"

text \<open>
  The state of the process: the calls of \<open>session.post\<close> and \<open>session.get\<close> made so
  far, and the entries of the \<open>lru_cache\<close> of \<open>get_official_website\<close>, most recently
  used first.
\<close>

record state =
  requests :: "request list"
  cache :: "(cache_key \<times> py_str option) list"

definition send :: "state \<Rightarrow> request \<Rightarrow> state" where
  "send st req = st\<lparr>requests := requests st @ [req]\<rparr>"

text \<open>
  The credential goes into the \<open>Cookie\<close> header, and \<open>http.client\<close> encodes a header
  as Latin-1: with a code point above 255 in it, \<open>session.post\<close> and \<open>session.get\<close>
  raise \<open>UnicodeEncodeError\<close>, which is not a \<open>RequestException\<close>.
\<close>

definition latin1 :: "py_str \<Rightarrow> bool" where
  "latin1 s = list_all (\<lambda>c. c < 256) s"

text \<open>
  Standard output encodes as UTF-8, strictly: \<open>print\<close> raises \<open>UnicodeEncodeError\<close> for
  a text with a surrogate code point. \<open>py_print v\<close> is a \<open>print\<close> whose text has \<open>v\<close>
  formatted into it; only a \<open>str\<close> is written as it is, any other object by its
  \<open>repr\<close>, which escapes. The messages of exceptions are taken to print.
\<close>

definition surrogate :: "nat \<Rightarrow> bool" where
  "surrogate c = (55296 \<le> c \<and> c \<le> 57343)"

definition printable :: "py_str \<Rightarrow> bool" where
  "printable s = list_all (\<lambda>c. \<not> surrogate c) s"

fun py_print :: "json \<Rightarrow> exn + unit" where
  "py_print (JStr s) = (if printable s then Inr () else Inl UnicodeEncodeError)"
| "py_print _ = Inr ()"

section \<open>Entity resolver\<close>

text \<open>Lines 46 to 55: the second \<open>try\<close> of \<open>get_ent_info\<close>.\<close>

definition catch_key_index :: "exn + 'a option \<Rightarrow> exn + 'a option" where
  "catch_key_index r =
     (case r of
        Inl KeyError \<Rightarrow> Inr None
      | Inl IndexError \<Rightarrow> Inr None
      | _ \<Rightarrow> r)"

definition parse_ent_info :: "json \<Rightarrow> exn + (json \<times> json) option" where
  "parse_ent_info data =
     catch_key_index
       (and_then (getitem data (str ''data'')) (\<lambda>d.
        and_then (getitem d (str ''list'')) (\<lambda>ent_list.
          if \<not> truthy ent_list then Inr None
          else
            and_then (getitem0 ent_list) (\<lambda>first_ent.
            and_then (getitem first_ent (str ''entName'')) (\<lambda>ent_name.
            and_then (getitem first_ent (str ''entid'')) (\<lambda>ent_id.
              Inr (Some (ent_name, ent_id))))))))"

definition get_ent_info ::
  "world \<Rightarrow> state \<Rightarrow> py_str \<Rightarrow> py_str \<Rightarrow> (exn + (json \<times> json) option) \<times> state" where
  "get_ent_info w st search_key cookie =
     (let req = SearchReq search_key cookie in
      if \<not> latin1 cookie then (Inl UnicodeEncodeError, send st req)
      else
        case post_search w (length (requests st)) req of
          RequestException \<Rightarrow> (Inr None, send st req)
        | Body data \<Rightarrow> (parse_ent_info data, send st req))"

section \<open>Equity graph query\<close>

subsection \<open>\<open>str.replace\<close>, \<open>str.isdigit\<close>, \<open>float\<close> and \<open>int\<close>\<close>

definition percent_sign :: nat where
  "percent_sign = 37"

definition full_stop :: nat where
  "full_stop = 46"

text \<open>\<open>s.replace(c, "")\<close> for a one-character \<open>c\<close>: every occurrence goes.\<close>

definition remove_all :: "nat \<Rightarrow> py_str \<Rightarrow> py_str" where
  "remove_all c s = filter (\<lambda>x. x \<noteq> c) s"

text \<open>
  The decimal value of a code point (\<open>unicodedata.decimal\<close>), and whether
  \<open>str.isdigit\<close> accepts it. In ASCII these are the ten digits; elsewhere the table of
  the world decides (superscript two is a digit and has no decimal value).
\<close>

definition decimal_value :: "world \<Rightarrow> nat \<Rightarrow> nat option" where
  "decimal_value w c =
     (if c < 128 then (if 48 \<le> c \<and> c \<le> 57 then Some (c - 48) else None)
      else (case unicode_digit w c of Decimal v \<Rightarrow> Some v | OtherDigit \<Rightarrow> None | NoDigit \<Rightarrow> None))"

definition isdigit_char :: "world \<Rightarrow> nat \<Rightarrow> bool" where
  "isdigit_char w c =
     (if c < 128 then 48 \<le> c \<and> c \<le> 57
      else (case unicode_digit w c of Decimal v \<Rightarrow> True | OtherDigit \<Rightarrow> True | NoDigit \<Rightarrow> False))"

definition isdigit :: "world \<Rightarrow> py_str \<Rightarrow> bool" where
  "isdigit w s = (s \<noteq> [] \<and> list_all (isdigit_char w) s)"

fun decimal_digits :: "world \<Rightarrow> py_str \<Rightarrow> nat list option" where
  "decimal_digits w [] = Some []"
| "decimal_digits w (c # cs) =
     (case decimal_value w c of
        None \<Rightarrow> None
      | Some v \<Rightarrow> (case decimal_digits w cs of None \<Rightarrow> None | Some vs \<Rightarrow> Some (v # vs)))"

definition nat_of_digits :: "nat list \<Rightarrow> nat" where
  "nat_of_digits vs = foldl (\<lambda>acc v. 10 * acc + v) 0 vs"

text \<open>
  A binary64 float that is not negative: \<open>Finite m e\<close> is \<open>m * 2 ^ e\<close> with
  \<open>m \<le> 2 ^ 53\<close>, and \<open>Infinity\<close> is \<open>inf\<close>.
\<close>

datatype double = Finite nat int | Infinity

text \<open>\<open>a / b\<close> rounded to the nearest natural number, a tie to the even one.\<close>

definition round_half_even :: "nat \<Rightarrow> nat \<Rightarrow> nat" where
  "round_half_even a b =
     (let q = a div b; r = a mod b in
      if 2 * r < b then q
      else if b < 2 * r then q + 1
      else if even q then q else q + 1)"

text \<open>The integer \<open>p\<close> with \<open>2 ^ p \<le> n / d < 2 ^ (p + 1)\<close>, for positive \<open>n\<close> and \<open>d\<close>.\<close>

definition floor_log2 :: "nat \<Rightarrow> nat \<Rightarrow> int" where
  "floor_log2 n d =
     (let p = int (floorlog 2 n) - int (floorlog 2 d) in
      if (if 0 \<le> p then d * 2 ^ nat p \<le> n else d \<le> n * 2 ^ nat (- p)) then p else p - 1)"

text \<open>
  The binary64 float nearest to \<open>n / d\<close> (ties to even), as \<open>float\<close> converts a decimal
  string: 53 bits of significand, exponents from \<open>-1074\<close>, and \<open>inf\<close> from \<open>2 ^ 1024\<close> on.
\<close>

definition round_to_double :: "nat \<Rightarrow> nat \<Rightarrow> double" where
  "round_to_double n d =
     (if n = 0 then Finite 0 0
      else
        let p = floor_log2 n d in
        if 52 \<le> p then
          (let e = nat (p - 52); m = round_half_even n (d * 2 ^ e) in
           if 2 ^ 1024 \<le> m * 2 ^ e then Infinity else Finite m (int e))
        else
          (let s = nat (min (52 - p) 1074); m = round_half_even (n * 2 ^ s) d in
           Finite m (- int s)))"

text \<open>
  \<open>float(s)\<close> for a string whose characters are digits and full stops, which are the
  strings that pass the guard of line 89: digits with at most one full stop among them
  and at least one digit, all of them decimal; anything else is a \<open>ValueError\<close>.
\<close>

definition py_float :: "world \<Rightarrow> py_str \<Rightarrow> exn + double" where
  "py_float w s =
     (let int_part = takeWhile (\<lambda>c. c \<noteq> full_stop) s;
          frac_part = drop 1 (dropWhile (\<lambda>c. c \<noteq> full_stop) s)
      in case (decimal_digits w int_part, decimal_digits w frac_part) of
           (Some i, Some f) \<Rightarrow>
             if i @ f = [] then Inl ValueError
             else Inr (round_to_double (nat_of_digits (i @ f)) (10 ^ length f))
         | _ \<Rightarrow> Inl ValueError)"

text \<open>\<open>int(x)\<close> for a float that is not negative: the integer part.\<close>

fun py_int :: "double \<Rightarrow> exn + int" where
  "py_int (Finite m e) = Inr (if 0 \<le> e then int (m * 2 ^ nat e) else int (m div 2 ^ nat (- e)))"
| "py_int Infinity = Inl OverflowError"

subsection \<open>\<open>query_equity_investment\<close>\<close>

record investment =
  name :: json
  entid :: json
  funded_ratio :: int

text \<open>Lines 88 to 90: the ownership percentage of one child, \<open>None\<close> when the guard fails.\<close>

definition funded_ratio_of :: "world \<Rightarrow> json \<Rightarrow> exn + int option" where
  "funded_ratio_of w child =
     and_then (dict_get child (str ''fundedRatio'') (JStr [])) (\<lambda>v.
       case v of
         JStr s \<Rightarrow>
           (let funded_ratio_str = remove_all percent_sign s in
            if isdigit w (remove_all full_stop funded_ratio_str) then
              and_then (py_float w funded_ratio_str) (\<lambda>x.
              and_then (py_int x) (\<lambda>funded_ratio. Inr (Some funded_ratio)))
            else Inr None)
       | _ \<Rightarrow> Inl AttributeError)"

text \<open>Lines 88 to 96: the body of the loop, giving the record to append if any.\<close>

definition child_entry :: "world \<Rightarrow> int \<Rightarrow> json \<Rightarrow> exn + investment option" where
  "child_entry w threshold child =
     and_then (funded_ratio_of w child) (\<lambda>r.
       case r of
         None \<Rightarrow> Inr None
       | Some ratio \<Rightarrow>
           if threshold \<le> ratio then
             and_then (getitem child (str ''entname'')) (\<lambda>n.
             and_then (getitem child (str ''entid'')) (\<lambda>i.
               Inr (Some \<lparr>name = n, entid = i, funded_ratio = ratio\<rparr>)))
           else Inr None)"

fun children_loop :: "world \<Rightarrow> int \<Rightarrow> json list \<Rightarrow> investment list \<Rightarrow> exn + investment list" where
  "children_loop w threshold [] results = Inr results"
| "children_loop w threshold (child # rest) results =
     (case child_entry w threshold child of
        Inl e \<Rightarrow> Inl e
      | Inr None \<Rightarrow> children_loop w threshold rest results
      | Inr (Some r) \<Rightarrow> children_loop w threshold rest (results @ [r]))"

text \<open>Lines 84 to 97.\<close>

definition equity_results :: "world \<Rightarrow> int \<Rightarrow> json \<Rightarrow> exn + investment list" where
  "equity_results w threshold data =
     and_then (dict_get data (str ''success'') JNull) (\<lambda>success.
       if \<not> truthy success then Inr []
       else
         and_then (dict_get data (str ''data'') JNull) (\<lambda>d.
           if \<not> truthy d then Inr []
           else
             and_then (dict_get d (str ''children'') (JArr [])) (\<lambda>children.
             and_then (iterate children) (\<lambda>cs. children_loop w threshold cs []))))"

definition query_equity_investment ::
  "world \<Rightarrow> state \<Rightarrow> json \<Rightarrow> py_str \<Rightarrow> int \<Rightarrow> (exn + investment list) \<times> state" where
  "query_equity_investment w st ent_id cookie threshold =
     (let req = EquityReq ent_id cookie in
      if \<not> latin1 cookie then (Inl UnicodeEncodeError, send st req)
      else
        case post_equity w (length (requests st)) req of
          RequestException \<Rightarrow> (Inr [], send st req)
        | Body data \<Rightarrow> (equity_results w threshold data, send st req))"

section \<open>Website extractor\<close>

subsection \<open>\<open>urllib.parse.quote\<close>\<close>

definition utf8_encode_char :: "nat \<Rightarrow> exn + nat list" where
  "utf8_encode_char c =
     (if surrogate c then Inl UnicodeEncodeError
      else if c < 128 then Inr [c]
      else if c < 2048 then Inr [192 + c div 64, 128 + c mod 64]
      else if c < 65536 then Inr [224 + c div 4096, 128 + (c div 64) mod 64, 128 + c mod 64]
      else Inr [240 + c div 262144, 128 + (c div 4096) mod 64, 128 + (c div 64) mod 64,
                128 + c mod 64])"

fun utf8_encode :: "py_str \<Rightarrow> exn + nat list" where
  "utf8_encode [] = Inr []"
| "utf8_encode (c # cs) =
     (case utf8_encode_char c of
        Inl e \<Rightarrow> Inl e
      | Inr bs \<Rightarrow> (case utf8_encode cs of Inl e \<Rightarrow> Inl e | Inr rest \<Rightarrow> Inr (bs @ rest)))"

definition hex_digit :: "nat \<Rightarrow> nat" where
  "hex_digit n = (if n < 10 then 48 + n else 55 + n)"

text \<open>The bytes that \<open>quote\<close> keeps: letters, digits, \<open>_.-~\<close>, and its default \<open>safe="/"\<close>.\<close>

definition safe_byte :: "nat \<Rightarrow> bool" where
  "safe_byte b =
     ((65 \<le> b \<and> b \<le> 90) \<or> (97 \<le> b \<and> b \<le> 122) \<or> (48 \<le> b \<and> b \<le> 57)
      \<or> b = 95 \<or> b = 46 \<or> b = 45 \<or> b = 126 \<or> b = 47)"

definition quote_byte :: "nat \<Rightarrow> py_str" where
  "quote_byte b = (if safe_byte b then [b] else [37, hex_digit (b div 16), hex_digit (b mod 16)])"

text \<open>
  \<open>quote(string)\<close>: a \<open>str\<close> is encoded as UTF-8 (strict, so a surrogate raises) and
  escaped; any other object here is not \<open>bytes\<close>, and \<open>quote_from_bytes\<close> raises.
\<close>

fun quote :: "json \<Rightarrow> exn + py_str" where
  "quote (JStr s) =
     (if s = [] then Inr []
      else and_then (utf8_encode s) (\<lambda>bs. Inr (concat (map quote_byte bs))))"
| "quote _ = Inl TypeError"

subsection \<open>\<open>get_official_website\<close>\<close>

text \<open>The label that line 133 looks for, as code points.\<close>

definition marker :: py_str where
  "marker = [23448, 32593, 65306, 32, 60, 100, 105, 118, 32]"

text \<open>\<open>s.find(sub)\<close>: the first index where \<open>sub\<close> starts, \<open>None\<close> for \<open>-1\<close>.\<close>

fun find_from :: "nat \<Rightarrow> py_str \<Rightarrow> py_str \<Rightarrow> nat option" where
  "find_from i [] sub = (if sub = [] then Some i else None)"
| "find_from i (c # cs) sub =
     (if prefix sub (c # cs) then Some i else find_from (Suc i) cs sub)"

definition py_find :: "py_str \<Rightarrow> py_str \<Rightarrow> nat option" where
  "py_find s sub = find_from 0 s sub"

text \<open>Line 145.\<close>

definition normalize_href :: "py_str \<Rightarrow> py_str" where
  "normalize_href href = (if prefix (str ''//'') href then str ''http:'' @ href else href)"

text \<open>Lines 131 to 148: every exception of the block becomes \<open>None\<close>.\<close>

definition extract_href :: "world \<Rightarrow> py_str \<Rightarrow> py_str option" where
  "extract_href w html_text =
     (case py_find html_text marker of
        None \<Rightarrow> None
      | Some start_index \<Rightarrow>
          (let relevant_html = take 1000 (drop start_index html_text) in
           case soup_find_a w relevant_html of
             ParserRaised \<Rightarrow> None
           | NoAnchor \<Rightarrow> None
           | Href href \<Rightarrow> Some (normalize_href href)))"

text \<open>Lines 103 to 148: the function under the decorator.\<close>

definition get_official_website_body ::
  "world \<Rightarrow> state \<Rightarrow> json \<Rightarrow> json \<Rightarrow> py_str \<Rightarrow> (exn + py_str option) \<times> state" where
  "get_official_website_body w st ent_name ent_id cookie =
     (case quote ent_name of
        Inl e \<Rightarrow> (Inl e, st)
      | Inr encoded_ent_name \<Rightarrow>
          (let req = PageReq encoded_ent_name ent_id cookie in
           if \<not> latin1 cookie then (Inl UnicodeEncodeError, send st req)
           else
             case get_page w (length (requests st)) req of
               RequestException \<Rightarrow> (Inr None, send st req)
             | Body html_text \<Rightarrow> (Inr (extract_href w html_text), send st req)))"

definition maxsize :: nat where
  "maxsize = 128"

text \<open>
  Line 100, \<open>lru_cache(maxsize=128)\<close>, in the three steps of the wrapper. The
  arguments are hashed into the key. Under the lock, a hit returns the stored result
  and becomes the most recent entry. On a miss the function is called, outside the
  lock. Under the lock again, what it returned is stored, unless the key has been
  stored meanwhile; when the cache is full the least recently used entry goes.
  Nothing is stored when the function raises.
\<close>

definition make_key :: "json \<Rightarrow> json \<Rightarrow> py_str \<Rightarrow> exn + cache_key" where
  "make_key ent_name ent_id cookie =
     (case hash_key ent_name of
        Inl e \<Rightarrow> Inl e
      | Inr kn \<Rightarrow> (case hash_key ent_id of Inl e \<Rightarrow> Inl e | Inr ki \<Rightarrow> Inr (kn, ki, cookie)))"

definition cache_lookup :: "state \<Rightarrow> cache_key \<Rightarrow> py_str option option \<times> state" where
  "cache_lookup st key =
     (case map_of (cache st) key of
        Some result \<Rightarrow>
          (Some result, st\<lparr>cache := (key, result) # filter (\<lambda>kv. fst kv \<noteq> key) (cache st)\<rparr>)
      | None \<Rightarrow> (None, st))"

definition cache_store :: "state \<Rightarrow> cache_key \<Rightarrow> py_str option \<Rightarrow> state" where
  "cache_store st key result =
     (case map_of (cache st) key of
        Some stored \<Rightarrow> st
      | None \<Rightarrow>
          st\<lparr>cache := (key, result) #
            (if maxsize \<le> length (cache st) then butlast (cache st) else cache st)\<rparr>)"

text \<open>A call of the decorated function on its own thread, with nothing between its steps.\<close>

definition get_official_website ::
  "world \<Rightarrow> state \<Rightarrow> json \<Rightarrow> json \<Rightarrow> py_str \<Rightarrow> (exn + py_str option) \<times> state" where
  "get_official_website w st ent_name ent_id cookie =
     (case make_key ent_name ent_id cookie of
        Inl e \<Rightarrow> (Inl e, st)
      | Inr key \<Rightarrow>
          (case cache_lookup st key of
             (Some result, st1) \<Rightarrow> (Inr result, st1)
           | (None, st1) \<Rightarrow>
               (case get_official_website_body w st1 ent_name ent_id cookie of
                  (Inl e, st2) \<Rightarrow> (Inl e, st2)
                | (Inr result, st2) \<Rightarrow> (Inr result, cache_store st2 key result))))"

section \<open>Lookup of one search key\<close>

record child = investment +
  website :: "py_str option"

record lookup_result =
  parent_name :: json
  official_website :: "py_str option"
  equity_investments :: "child list"

subsection \<open>The worker threads of the fan-out\<close>

text \<open>
  Where the call submitted for a child stands: not taken by a worker yet; looked up
  and missed; returned from the function, with the result to store; finished, with
  what the future holds. The threads interleave between these steps, each of which
  touches the shared state at one moment.
\<close>

datatype phase =
    Waiting
  | Missed cache_key
  | Returned cache_key "py_str option"
  | Done "exn + py_str option"

text \<open>The next step of the call for a child.\<close>

definition advance :: "world \<Rightarrow> py_str \<Rightarrow> investment \<Rightarrow> phase \<Rightarrow> state \<Rightarrow> phase \<times> state" where
  "advance w cookie c ph st =
     (case ph of
        Waiting \<Rightarrow>
          (case make_key (name c) (entid c) cookie of
             Inl e \<Rightarrow> (Done (Inl e), st)
           | Inr key \<Rightarrow>
               (case cache_lookup st key of
                  (Some result, st1) \<Rightarrow> (Done (Inr result), st1)
                | (None, st1) \<Rightarrow> (Missed key, st1)))
      | Missed key \<Rightarrow>
          (case get_official_website_body w st (name c) (entid c) cookie of
             (Inl e, st1) \<Rightarrow> (Done (Inl e), st1)
           | (Inr result, st1) \<Rightarrow> (Returned key result, st1))
      | Returned key result \<Rightarrow> (Done (Inr result), cache_store st key result)
      | Done r \<Rightarrow> (Done r, st))"

definition in_progress :: "phase \<Rightarrow> bool" where
  "in_progress ph = (case ph of Missed key \<Rightarrow> True | Returned key result \<Rightarrow> True | _ \<Rightarrow> False)"

text \<open>
  The calls that can take a step: those in progress, and, while fewer than
  \<open>max_workers\<close> are in progress, the first of those waiting (the pool takes them in
  the order of submission).
\<close>

definition runnable :: "int \<Rightarrow> phase list \<Rightarrow> nat list" where
  "runnable max_workers phases =
     (let started = filter (\<lambda>i. in_progress (phases ! i)) [0..<length phases];
          next = length (takeWhile (\<lambda>ph. ph \<noteq> Waiting) phases)
      in if int (length started) < max_workers \<and> next < length phases then started @ [next]
         else started)"

text \<open>One step of the pool: the choice picks one of the calls that can take a step.\<close>

definition pool_step ::
  "world \<Rightarrow> py_str \<Rightarrow> investment list \<Rightarrow> int \<Rightarrow> phase list \<times> state \<Rightarrow> nat
     \<Rightarrow> phase list \<times> state" where
  "pool_step w cookie children max_workers pool choice =
     (case pool of (phases, st) \<Rightarrow>
        (case runnable max_workers phases of
           [] \<Rightarrow> (phases, st)
         | r # rs \<Rightarrow>
             (let i = (r # rs) ! (choice mod length (r # rs)) in
              case advance w cookie (children ! i) (phases ! i) st of
                (ph, st1) \<Rightarrow> (phases[i := ph], st1))))"

text \<open>The rest of a call, run to its end.\<close>

definition finish ::
  "world \<Rightarrow> py_str \<Rightarrow> investment \<Rightarrow> phase \<Rightarrow> state \<Rightarrow> (exn + py_str option) \<times> state" where
  "finish w cookie c ph st =
     (case ph of
        Waiting \<Rightarrow> get_official_website w st (name c) (entid c) cookie
      | Missed key \<Rightarrow>
          (case get_official_website_body w st (name c) (entid c) cookie of
             (Inl e, st1) \<Rightarrow> (Inl e, st1)
           | (Inr result, st1) \<Rightarrow> (Inr result, cache_store st1 key result))
      | Returned key result \<Rightarrow> (Inr result, cache_store st key result)
      | Done r \<Rightarrow> (r, st))"

fun finish_all ::
  "world \<Rightarrow> py_str \<Rightarrow> (investment \<times> phase) list \<Rightarrow> state
     \<Rightarrow> (exn + py_str option) list \<times> state" where
  "finish_all w cookie [] st = ([], st)"
| "finish_all w cookie ((c, ph) # rest) st =
     (case finish w cookie c ph st of
        (r, st1) \<Rightarrow> (case finish_all w cookie rest st1 of (rs, st2) \<Rightarrow> (r # rs, st2)))"

text \<open>
  Lines 172 to 176 and the end of the \<open>with\<close> block: every child is submitted, the
  threads take steps as the schedule chooses, and when the schedule ends the calls
  that are left run to their end in the order of submission. The result is what each
  future holds, in the order of submission. With an empty schedule the calls run one
  after the other.
\<close>

definition run_pool ::
  "world \<Rightarrow> state \<Rightarrow> py_str \<Rightarrow> investment list \<Rightarrow> int
     \<Rightarrow> (exn + py_str option) list \<times> state" where
  "run_pool w st cookie children max_workers =
     (case foldl (pool_step w cookie children max_workers)
             (map (\<lambda>c. Waiting) children, st) (thread_schedule w (length (requests st))) of
        (phases, st1) \<Rightarrow> finish_all w cookie (zip children phases) st1)"

subsection \<open>Collection, sort and lookup\<close>

text \<open>
  The order in which \<open>as_completed\<close> yields the submitted futures: each choice picks
  one of those still pending; without choices they come in submission order.
\<close>

fun pick_order :: "nat list \<Rightarrow> 'a list \<Rightarrow> 'a list" where
  "pick_order cs [] = []"
| "pick_order [] xs = xs"
| "pick_order (c # cs) xs =
     (let i = c mod length xs in xs ! i # pick_order cs (take i xs @ drop (Suc i) xs))"

text \<open>
  Lines 178 to 187, over the futures in the order they are yielded. A result gives the
  child its website. An exception goes to the handler, which prints the name of the
  child and then gives the child no website; when the print raises, the exception
  leaves the loop.
\<close>

fun collect :: "(investment \<times> (exn + py_str option)) list \<Rightarrow> exn + child list" where
  "collect [] = Inr []"
| "collect ((c, r) # rest) =
     (case (case r of
              Inr found \<Rightarrow> Inr found
            | Inl e \<Rightarrow> (case py_print (name c) of Inl e' \<Rightarrow> Inl e' | Inr u \<Rightarrow> Inr None)) of
        Inl e \<Rightarrow> Inl e
      | Inr site \<Rightarrow>
          (case collect rest of
             Inl e \<Rightarrow> Inl e
           | Inr children \<Rightarrow>
               Inr (\<lparr>name = name c, entid = entid c, funded_ratio = funded_ratio c,
                     website = site\<rparr> # children)))"

text \<open>
  Line 190, \<open>sort(key=..., reverse=True)\<close>: the list is reversed, sorted stably by the
  key, and reversed again.
\<close>

definition sort_reverse :: "('a \<Rightarrow> int) \<Rightarrow> 'a list \<Rightarrow> 'a list" where
  "sort_reverse key xs = rev (sort_key key (rev xs))"

text \<open>
  Lines 172 to 190: the pool runs, the children are collected in the order their
  futures are yielded, then sorted. The state is the one the pool leaves, also when
  the handler raises, since the \<open>with\<close> block waits for every call.
\<close>

definition fan_out ::
  "world \<Rightarrow> state \<Rightarrow> py_str \<Rightarrow> investment list \<Rightarrow> int \<Rightarrow> (exn + child list) \<times> state" where
  "fan_out w st cookie child_companies max_workers =
     (case run_pool w st cookie child_companies max_workers of
        (outcomes, st1) \<Rightarrow>
          (case collect (pick_order (as_completed_order w (length (requests st)))
                           (zip child_companies outcomes)) of
             Inl e \<Rightarrow> (Inl e, st1)
           | Inr collected \<Rightarrow> (Inr (sort_reverse funded_ratio collected), st1)))"

text \<open>Lines 193 to 199: the prints of the parent, and of each child's name and website.\<close>

fun print_children :: "child list \<Rightarrow> exn + unit" where
  "print_children [] = Inr ()"
| "print_children (c # rest) =
     (case py_print (name c) of
        Inl e \<Rightarrow> Inl e
      | Inr u \<Rightarrow>
          (case py_print (case website c of None \<Rightarrow> JNull | Some site \<Rightarrow> JStr site) of
             Inl e \<Rightarrow> Inl e
           | Inr u' \<Rightarrow> print_children rest))"

definition print_report :: "json \<Rightarrow> child list \<Rightarrow> exn + unit" where
  "print_report p_name children =
     (if children = [] then Inr ()
      else (case py_print p_name of Inl e \<Rightarrow> Inl e | Inr u \<Rightarrow> print_children children))"

text \<open>
  Lines 164 to 199. \<open>ThreadPoolExecutor\<close> raises \<open>ValueError\<close> for a number of workers
  that is not positive.
\<close>

definition subsidiaries ::
  "world \<Rightarrow> state \<Rightarrow> json \<Rightarrow> json \<Rightarrow> py_str \<Rightarrow> int option \<Rightarrow> int
     \<Rightarrow> (exn + child list) \<times> state" where
  "subsidiaries w st p_name parent_id cookie equity_threshold max_workers =
     (case equity_threshold of
        None \<Rightarrow> (Inr [], st)
      | Some t \<Rightarrow>
          if 0 \<le> t \<and> t \<le> 100 then
            (case query_equity_investment w st parent_id cookie t of
               (Inl e, st1) \<Rightarrow> (Inl e, st1)
             | (Inr child_companies, st1) \<Rightarrow>
                 if child_companies = [] then (Inr [], st1)
                 else if max_workers \<le> 0 then (Inl ValueError, st1)
                 else
                   (case fan_out w st1 cookie child_companies max_workers of
                      (Inl e, st2) \<Rightarrow> (Inl e, st2)
                    | (Inr sorted_children, st2) \<Rightarrow>
                        (case print_report p_name sorted_children of
                           Inl e \<Rightarrow> (Inl e, st2)
                         | Inr u \<Rightarrow> (Inr sorted_children, st2))))
          else (Inr [], st))"

text \<open>Lines 151 to 205.\<close>

definition fetch_official_website ::
  "world \<Rightarrow> state \<Rightarrow> py_str \<Rightarrow> py_str \<Rightarrow> int option \<Rightarrow> int \<Rightarrow> (exn + lookup_result) \<times> state" where
  "fetch_official_website w st search_key cookie equity_threshold max_workers =
     (case get_ent_info w st search_key cookie of
        (Inl e, st1) \<Rightarrow> (Inl e, st1)
      | (Inr None, st1) \<Rightarrow>
          (Inr \<lparr>parent_name = JNull, official_website = None, equity_investments = []\<rparr>, st1)
      | (Inr (Some (p_name, p_id)), st1) \<Rightarrow>
          (case get_official_website w st1 p_name p_id cookie of
             (Inl e, st2) \<Rightarrow> (Inl e, st2)
           | (Inr site, st2) \<Rightarrow>
               (case subsidiaries w st2 p_name p_id cookie equity_threshold max_workers of
                  (Inl e, st3) \<Rightarrow> (Inl e, st3)
                | (Inr children, st3) \<Rightarrow>
                    (Inr \<lparr>parent_name = p_name, official_website = site,
                          equity_investments = children\<rparr>, st3))))"

section \<open>Report writer and batch driver\<close>

text \<open>A row of the report: unit name, website address, ownership.\<close>

type_synonym row = "json \<times> json \<times> json"

definition header :: row where
  "header = (JStr [21333, 20301, 21517, 31216], JStr [23448, 32593, 22320, 22336],
             JStr [32929, 26435])"

text \<open>\<open>x or ""\<close> for a website.\<close>

definition or_empty :: "py_str option \<Rightarrow> json" where
  "or_empty x = (case x of None \<Rightarrow> JStr [] | Some s \<Rightarrow> JStr s)"

definition result_rows :: "lookup_result \<Rightarrow> row list" where
  "result_rows result =
     (parent_name result, or_empty (official_website result), JStr []) #
     map (\<lambda>c. (name c, or_empty (website c), JInt (funded_ratio c))) (equity_investments result)"

text \<open>Lines 208 to 227: the rows handed to the writer, the header first.\<close>

definition save_to_csv :: "lookup_result list \<Rightarrow> row list" where
  "save_to_csv results = header # concat (map result_rows results)"

definition initial_state :: state where
  "initial_state = \<lparr>requests = [], cache = []\<rparr>"

text \<open>Lines 261 to 269: an exception of one key leaves the loop.\<close>

fun lookup_all ::
  "world \<Rightarrow> state \<Rightarrow> py_str list \<Rightarrow> py_str \<Rightarrow> int option \<Rightarrow> int \<Rightarrow> lookup_result list
     \<Rightarrow> (exn + lookup_result list) \<times> state" where
  "lookup_all w st [] cookie equity threads all_results = (Inr all_results, st)"
| "lookup_all w st (search_key # rest) cookie equity threads all_results =
     (case fetch_official_website w st search_key cookie equity threads of
        (Inl e, st1) \<Rightarrow> (Inl e, st1)
      | (Inr result, st1) \<Rightarrow>
          lookup_all w st1 rest cookie equity threads (all_results @ [result]))"

text \<open>Lines 261 to 279: the report of a run, or the exception that ends it.\<close>

definition run_batch :: "world \<Rightarrow> py_str list \<Rightarrow> py_str \<Rightarrow> int \<Rightarrow> int \<Rightarrow> exn + row list" where
  "run_batch w search_keys cookie equity threads =
     (case lookup_all w initial_state search_keys cookie (Some equity) threads [] of
        (Inl e, st) \<Rightarrow> Inl e
      | (Inr all_results, st) \<Rightarrow> Inr (save_to_csv all_results))"

section \<open>Observations and example worlds\<close>

text \<open>Whether a request of the log went to the equity graph endpoint.\<close>

definition is_equity :: "request \<Rightarrow> bool" where
  "is_equity req = (case req of EquityReq i c \<Rightarrow> True | _ \<Rightarrow> False)"

text \<open>A world whose endpoints always give the same replies.\<close>

definition world_of ::
  "json reply \<Rightarrow> json reply \<Rightarrow> py_str reply \<Rightarrow> anchor \<Rightarrow> nat list \<Rightarrow> world" where
  "world_of search equity page a order =
     \<lparr>post_search = (\<lambda>n req. search), post_equity = (\<lambda>n req. equity),
      get_page = (\<lambda>n req. page), soup_find_a = (\<lambda>html. a),
      unicode_digit = (\<lambda>c. NoDigit), thread_schedule = (\<lambda>n. []),
      as_completed_order = (\<lambda>n. order)\<rparr>"

text \<open>Search replies: one entity, an empty list, and an error body without a payload.\<close>

definition found_acme :: json where
  "found_acme = JObj [(str ''data'', JObj [(str ''list'',
      JArr [JObj [(str ''entName'', JStr (str ''Acme'')), (str ''entid'', JStr (str ''e1''))]])])]"

definition found_nothing :: json where
  "found_nothing = JObj [(str ''data'', JObj [(str ''list'', JArr [])])]"

definition no_payload :: json where
  "no_payload = JObj [(str ''code'', JInt 401), (str ''data'', JNull)]"

text \<open>The record of the query inside a collected child.\<close>

definition investment_of :: "child \<Rightarrow> investment" where
  "investment_of c = \<lparr>name = name c, entid = entid c, funded_ratio = funded_ratio c\<rparr>"

text \<open>Replies of the equity graph endpoint: a child entry, and a successful reply.\<close>

definition graph_child :: "string \<Rightarrow> json \<Rightarrow> string \<Rightarrow> json" where
  "graph_child ratio n i =
     JObj [(str ''fundedRatio'', JStr (str ratio)), (str ''entname'', n),
           (str ''entid'', JStr (str i))]"

definition graph_of :: "json list \<Rightarrow> json" where
  "graph_of children =
     JObj [(str ''success'', JBool True), (str ''data'', JObj [(str ''children'', JArr children)])]"

text \<open>Two children with the same percentage; the future of the second is yielded first.\<close>

definition tie_world :: world where
  "tie_world = world_of (Body found_acme)
      (Body (graph_of [graph_child ''50%'' (JStr (str ''A'')) ''a1'',
                       graph_child ''50%'' (JStr (str ''B'')) ''b1'']))
      RequestException NoAnchor [1]"

text \<open>A child whose percentage has two full stops.\<close>

definition malformed_world :: world where
  "malformed_world = world_of (Body found_acme)
      (Body (graph_of [graph_child ''1.2.3'' (JStr (str ''A'')) ''a1'']))
      RequestException NoAnchor []"


text \<open>A child below and a child above a threshold of 50.\<close>

definition two_children_world :: world where
  "two_children_world = world_of (Body found_acme)
      (Body (graph_of [graph_child ''30.5'' (JStr (str ''B'')) ''b1'',
                       graph_child ''60%'' (JStr (str ''A'')) ''a1'']))
      RequestException NoAnchor []"





















text \<open>
  A page as the site serves it: a table cell with the marker, and after it a link with
  the given \<open>href\<close> in quotation marks. In the world of this page the entity \<open>e1\<close> has
  a link without scheme and every other entity one with a scheme, and the parser finds
  the link in the window that starts at the marker.
\<close>

definition dq :: py_str where
  "dq = [34]"

definition site_window :: "string \<Rightarrow> py_str" where
  "site_window href =
     marker @ str ''class='' @ dq @ str ''link'' @ dq @ str ''><a href='' @ dq @ str href @ dq
       @ str ''>site</a></div>''"

definition site_world :: world where
  "site_world =
     \<lparr>post_search = (\<lambda>n req. RequestException), post_equity = (\<lambda>n req. RequestException),
      get_page = (\<lambda>n req. case req of
          PageReq q i c \<Rightarrow>
            Body (str ''<table><tr><td>'' @
                  site_window (if i = JStr (str ''e1'') then ''//cdn.example.com/site''
                               else ''https://example.com'') @ str ''</td></tr></table>'')
        | _ \<Rightarrow> RequestException),
      soup_find_a = (\<lambda>html.
          if html = site_window ''//cdn.example.com/site'' @ str ''</td></tr></table>''
          then Href (str ''//cdn.example.com/site'')
          else if html = site_window ''https://example.com'' @ str ''</td></tr></table>''
          then Href (str ''https://example.com'')
          else NoAnchor),
      unicode_digit = (\<lambda>c. NoDigit), thread_schedule = (\<lambda>n. []),
      as_completed_order = (\<lambda>n. [])\<rparr>"




section \<open>Properties\<close>

lemmas eval_defs = world_of_def found_acme_def str_def
  graph_child_def graph_of_def latin1_def surrogate_def printable_def
  get_ent_info_def parse_ent_info_def catch_key_index_def send_def initial_state_def
  fetch_official_website_def get_official_website_def get_official_website_body_def
  make_key_def cache_lookup_def cache_store_def
  subsidiaries_def extract_href_def py_find_def marker_def normalize_href_def Let_def
  is_equity_def utf8_encode_char_def quote_byte_def safe_byte_def maxsize_def
  query_equity_investment_def equity_results_def child_entry_def fan_out_def sort_reverse_def
  run_pool_def pool_step_def runnable_def advance_def in_progress_def finish_def
  print_report_def
  funded_ratio_of_def remove_all_def percent_sign_def full_stop_def
  isdigit_def isdigit_char_def py_float_def decimal_value_def nat_of_digits_def
  round_to_double_def floor_log2_def compute_floorlog round_half_even_def
  run_batch_def save_to_csv_def result_rows_def or_empty_def

subsection \<open>What each component adds to the request log\<close>

lemma get_ent_info_state:
  "snd (get_ent_info w st k c) = send st (SearchReq k c)"
  by (simp add: get_ent_info_def Let_def split: reply.splits)

lemma body_requests:
  "requests (snd (get_official_website_body w st n i c)) = requests st \<or>
   (\<exists>q. requests (snd (get_official_website_body w st n i c)) = requests st @ [PageReq q i c])"
  by (auto simp: get_official_website_body_def Let_def send_def split: sum.splits reply.splits)

lemma lookup_requests: "requests (snd (cache_lookup st key)) = requests st"
  by (simp add: cache_lookup_def split: option.splits)

lemma store_requests: "requests (cache_store st key r) = requests st"
  by (simp add: cache_store_def split: option.splits)

lemma website_requests:
  "requests (snd (get_official_website w st n i c)) = requests st \<or>
   (\<exists>q. requests (snd (get_official_website w st n i c)) = requests st @ [PageReq q i c])"
proof (cases "make_key n i c")
  case (Inl e)
  then show ?thesis by (simp add: get_official_website_def)
next
  case (Inr key)
  obtain hit st1 where l: "cache_lookup st key = (hit, st1)" by (cases "cache_lookup st key")
  with lookup_requests [of st key] have r1: "requests st1 = requests st" by simp
  show ?thesis
  proof (cases hit)
    case (Some result)
    with Inr l r1 show ?thesis by (simp add: get_official_website_def)
  next
    case None
    obtain r st2 where b: "get_official_website_body w st1 n i c = (r, st2)"
      by (cases "get_official_website_body w st1 n i c")
    with body_requests [of w st1 n i c] r1
    have "requests st2 = requests st \<or> (\<exists>q. requests st2 = requests st @ [PageReq q i c])"
      by simp
    with Inr l None b show ?thesis
      by (cases r) (simp_all add: get_official_website_def store_requests)
  qed
qed

lemma website_equity_requests:
  "filter is_equity (requests (snd (get_official_website w st n i c)))
     = filter is_equity (requests st)"
  using website_requests [of w st n i c] by (auto simp: is_equity_def)

lemma subsidiaries_out_of_range:
  "t < 0 \<or> 100 < t \<Longrightarrow> subsidiaries w st pn i c (Some t) mw = (Inr [], st)"
  by (auto simp: subsidiaries_def)

subsection \<open>Threshold gate\<close>

text \<open>
  Claim C5. For a threshold below 0 or above 100, a lookup sends no request to the
  equity graph endpoint (the log gains no such request, whatever the network
  replies), and a lookup that returns a result returns one with no children.
\<close>

theorem out_of_range_threshold:
  assumes "t < 0 \<or> 100 < t"
  shows "filter is_equity (requests (snd (fetch_official_website w st k c (Some t) mw)))
           = filter is_equity (requests st)
         \<and> (case fst (fetch_official_website w st k c (Some t) mw) of
              Inl e \<Rightarrow> True
            | Inr result \<Rightarrow> equity_investments result = [])"
proof (cases "get_ent_info w st k c")
  case (Pair r st1)
  with get_ent_info_state [of w st k c] have st1: "st1 = send st (SearchReq k c)" by simp
  show ?thesis
  proof (cases r)
    case (Inl e)
    with Pair st1 show ?thesis
      by (simp add: fetch_official_website_def send_def is_equity_def)
  next
    case (Inr found)
    show ?thesis
    proof (cases found)
      case None
      with Inr Pair st1 show ?thesis
        by (simp add: fetch_official_website_def send_def is_equity_def)
    next
      case (Some p)
      obtain pn pid where p: "p = (pn, pid)" by (cases p)
      obtain r2 st2 where g: "get_official_website w st1 pn pid c = (r2, st2)"
        by (cases "get_official_website w st1 pn pid c")
      have "filter is_equity (requests st2) = filter is_equity (requests st1)"
        using website_equity_requests [of w st1 pn pid c] g by simp
      then have e2: "filter is_equity (requests st2) = filter is_equity (requests st)"
        using st1 by (simp add: send_def is_equity_def)
      show ?thesis
        using Pair Inr Some p g e2 subsidiaries_out_of_range [OF assms]
        by (cases r2) (simp_all add: fetch_official_website_def)
    qed
  qed
qed

text \<open>A threshold of 150: the search and the page request are sent, the equity request is not.\<close>

theorem out_of_range_threshold_witness:
  "fetch_official_website
      (world_of (Body found_acme) RequestException RequestException NoAnchor [])
      initial_state (str ''Acme'') (str ''sid'') (Some 150) 5
   = (Inr \<lparr>parent_name = JStr (str ''Acme''), official_website = None,
            equity_investments = []\<rparr>,
      \<lparr>requests = [SearchReq (str ''Acme'') (str ''sid''),
                   PageReq (str ''Acme'') (JStr (str ''e1'')) (str ''sid'')],
       cache = [((KStr (str ''Acme''), KStr (str ''e1''), str ''sid''), None)]\<rparr>)"
  using out_of_range_threshold [of 150
      "world_of (Body found_acme) RequestException RequestException NoAnchor []"
      initial_state "str ''Acme''" "str ''sid''" 5]
  by (simp add: eval_defs)

subsection \<open>Unresolved search keys\<close>

text \<open>
  Claim C10. When the resolver gives no entity for a search key, by returning \<open>None\<close>
  or by raising, the lookup of that key ends there: the state after the lookup is the
  state before it with the search request added to the log, so no page and no equity
  request was sent and the cached extractor was not called.
\<close>

theorem unresolved_short_circuit:
  assumes "\<forall>p. fst (get_ent_info w st k c) \<noteq> Inr (Some p)"
  shows "snd (fetch_official_website w st k c t mw) = send st (SearchReq k c)"
proof (cases "get_ent_info w st k c")
  case (Pair r st1)
  with get_ent_info_state [of w st k c] have st1: "st1 = send st (SearchReq k c)" by simp
  from assms Pair have "\<forall>p. r \<noteq> Inr (Some p)" by simp
  then show ?thesis using Pair st1
    by (cases r) (auto simp: fetch_official_website_def split: option.splits)
qed

text \<open>A search reply without payload: the resolver raises and one request was sent.\<close>

theorem unresolved_short_circuit_witness:
  "fetch_official_website
      (world_of (Body no_payload) RequestException RequestException NoAnchor [])
      initial_state (str ''Acme'') (str ''sid'') (Some 0) 5
   = (Inl TypeError, \<lparr>requests = [SearchReq (str ''Acme'') (str ''sid'')], cache = []\<rparr>)"
  using unresolved_short_circuit [of
      "world_of (Body no_payload) RequestException RequestException NoAnchor []"
      initial_state "str ''Acme''" "str ''sid''" "Some 0" 5]
  by (simp add: no_payload_def eval_defs)

text \<open>
  When the resolver returns \<open>None\<close>, as it does for an empty result list, for a reply
  without the expected keys and for a failed request, the lookup gives the result
  without parent, website and children, and the report has a row for it.
\<close>

lemma unresolved_lookup:
  assumes "fst (get_ent_info w st k c) = Inr None"
  shows "fetch_official_website w st k c t mw
           = (Inr \<lparr>parent_name = JNull, official_website = None, equity_investments = []\<rparr>,
              send st (SearchReq k c))"
proof (cases "get_ent_info w st k c")
  case (Pair r st1)
  with get_ent_info_state [of w st k c] have "st1 = send st (SearchReq k c)" by simp
  with Pair assms show ?thesis by (simp add: fetch_official_website_def)
qed

lemma empty_result_row:
  "run_batch (world_of (Body found_nothing) RequestException RequestException NoAnchor [])
      [str ''NoSuchCo''] (str ''sid'') 0 5 = Inr [header, (JNull, JStr [], JStr [])]"
  by (simp add: found_nothing_def eval_defs)

text \<open>
  Claim C8. The resolver catches \<open>RequestException\<close>, \<open>KeyError\<close> and \<open>IndexError\<close>
  (lines 51 to 55) and nothing else. A search reply whose \<open>data\<close> is \<open>null\<close>, such as
  \<open>{"code": 401, "data": null}\<close>, makes \<open>data["data"]["list"]\<close> on line 46 raise
  \<open>TypeError\<close>: the lookup gives no result for the key, and the batch ends with the
  exception and writes no report, neither a row for this key nor one for the keys
  that follow.
\<close>

theorem resolver_failure_aborts_batch:
  "run_batch (world_of (Body no_payload) RequestException RequestException NoAnchor [])
      [str ''Acme'', str ''Other''] (str ''sid'') 0 5 = Inl TypeError"
  by (simp add: no_payload_def eval_defs)

subsection \<open>Normalisation of the link\<close>

text \<open>
  Claim C7. When the extractor is called for a key that the cache does not have, the
  page is served, the marker is found in it and the parser finds a link with an
  \<open>href\<close> in the 1000 characters from the marker on, the extractor returns \<open>http:\<close>
  followed by the href when the href starts with \<open>//\<close>, and the href as it is
  otherwise.
\<close>

theorem href_normalized:
  assumes "make_key ent_name ent_id cookie = Inr key"
      and "map_of (cache st) key = None"
      and "quote ent_name = Inr q"
      and "latin1 cookie"
      and "get_page w (length (requests st)) (PageReq q ent_id cookie) = Body html_text"
      and "py_find html_text marker = Some i"
      and "soup_find_a w (take 1000 (drop i html_text)) = Href href"
  shows "fst (get_official_website w st ent_name ent_id cookie)
           = Inr (Some (if prefix (str ''//'') href then str ''http:'' @ href else href))"
  using assms
  by (simp add: get_official_website_def cache_lookup_def get_official_website_body_def
      extract_href_def normalize_href_def Let_def)

text \<open>
  The pages of the entities \<open>e1\<close> and \<open>e2\<close>: \<open>//cdn.example.com/site\<close> becomes
  \<open>http://cdn.example.com/site\<close>, and \<open>https://example.com\<close> stays.
\<close>

theorem href_normalized_witness:
  "fst (get_official_website site_world initial_state (JStr (str ''Acme'')) (JStr (str ''e1''))
          (str ''sid''))
     = Inr (Some (str ''http://cdn.example.com/site''))
   \<and> fst (get_official_website site_world initial_state (JStr (str ''Acme'')) (JStr (str ''e2''))
          (str ''sid''))
     = Inr (Some (str ''https://example.com''))"
  using href_normalized [of "JStr (str ''Acme'')" "JStr (str ''e1'')" "str ''sid''"
      "(KStr (str ''Acme''), KStr (str ''e1''), str ''sid'')" initial_state "str ''Acme''" site_world
      "str ''<table><tr><td>'' @ site_window ''//cdn.example.com/site'' @ str ''</td></tr></table>''"
      15 "str ''//cdn.example.com/site''"]
    href_normalized [of "JStr (str ''Acme'')" "JStr (str ''e2'')" "str ''sid''"
      "(KStr (str ''Acme''), KStr (str ''e2''), str ''sid'')" initial_state "str ''Acme''" site_world
      "str ''<table><tr><td>'' @ site_window ''https://example.com'' @ str ''</td></tr></table>''"
      15 "str ''https://example.com''"]
  by (simp add: site_world_def site_window_def dq_def eval_defs)

subsection \<open>Threshold filter\<close>

lemma child_entry_threshold:
  "child_entry w t c = Inr (Some r) \<Longrightarrow> t \<le> funded_ratio r"
  unfolding child_entry_def
  by (cases "funded_ratio_of w c"; cases "getitem c (str ''entname'')"; cases "getitem c (str ''entid'')")
     (auto split: option.splits if_splits)

lemma children_loop_threshold:
  "children_loop w t cs acc = Inr rs \<Longrightarrow> list_all (\<lambda>r. t \<le> funded_ratio r) acc
     \<Longrightarrow> list_all (\<lambda>r. t \<le> funded_ratio r) rs"
proof (induction cs arbitrary: acc)
  case Nil
  then show ?case by simp
next
  case (Cons c cs)
  show ?case
  proof (cases "child_entry w t c")
    case (Inl e)
    with Cons.prems show ?thesis by simp
  next
    case (Inr found)
    show ?thesis
    proof (cases found)
      case None
      with Inr Cons show ?thesis by simp
    next
      case (Some r)
      with Inr have "t \<le> funded_ratio r" by (simp add: child_entry_threshold)
      with Cons.prems Inr Some show ?thesis
        by (intro Cons.IH [of "acc @ [r]"]) simp_all
    qed
  qed
qed

lemma equity_results_threshold:
  "equity_results w t data = Inr rs \<Longrightarrow> list_all (\<lambda>r. t \<le> funded_ratio r) rs"
  unfolding equity_results_def
  apply (cases "dict_get data (str ''success'') JNull"; simp split: if_splits)
  apply (cases "dict_get data (str ''data'') JNull"; simp split: if_splits)
  subgoal for s d
    apply (cases "dict_get d (str ''children'') (JArr [])"; simp)
    subgoal for ch
      by (cases "iterate ch"; simp) (erule children_loop_threshold, simp)
    done
  done

lemma query_threshold:
  "fst (query_equity_investment w st i c t) = Inr rs \<Longrightarrow> list_all (\<lambda>r. t \<le> funded_ratio r) rs"
  by (auto simp: query_equity_investment_def Let_def equity_results_threshold
      split: reply.splits if_splits)

lemma set_pick_order: "set (pick_order cs xs) = set xs"
proof (induction cs xs rule: pick_order.induct)
  case (3 c cs x xs)
  let ?ys = "x # xs"
  let ?i = "c mod length ?ys"
  have i: "?i < length ?ys" by simp
  have "set ?ys = set (take ?i ?ys @ ?ys ! ?i # drop (Suc ?i) ?ys)"
    using id_take_nth_drop [OF i] by simp
  then have "set ?ys = insert (?ys ! ?i) (set (take ?i ?ys @ drop (Suc ?i) ?ys))" by simp
  with 3 show ?case by (simp add: Let_def)
qed simp_all

lemma pick_order_Nil: "pick_order [] xs = xs"
  by (cases xs) simp_all

lemma pick_order_Cons:
  "xs \<noteq> [] \<Longrightarrow> pick_order (c # cs) xs
     = xs ! (c mod length xs)
       # pick_order cs (take (c mod length xs) xs @ drop (Suc (c mod length xs)) xs)"
  by (cases xs) (simp_all add: Let_def)

lemma pick_order_map: "map f (pick_order cs xs) = pick_order cs (map f xs)"
proof (induction cs arbitrary: xs)
  case Nil
  then show ?case by (simp add: pick_order_Nil)
next
  case (Cons c cs)
  show ?case
  proof (cases "xs = []")
    case True
    then show ?thesis by simp
  next
    case False
    let ?i = "c mod length xs"
    have i: "?i < length xs" using False by simp
    have "map f (pick_order (c # cs) xs)
        = f (xs ! ?i) # map f (pick_order cs (take ?i xs @ drop (Suc ?i) xs))"
      using pick_order_Cons [OF False, of c cs] by simp
    also have "\<dots> = map f xs ! ?i # pick_order cs (map f (take ?i xs @ drop (Suc ?i) xs))"
      using i by (simp only: Cons.IH nth_map)
    also have "map f (take ?i xs @ drop (Suc ?i) xs)
        = take ?i (map f xs) @ drop (Suc ?i) (map f xs)"
      by (simp only: map_append take_map drop_map)
    also have "map f xs ! ?i # pick_order cs (take ?i (map f xs) @ drop (Suc ?i) (map f xs))
        = pick_order (c # cs) (map f xs)"
      using False pick_order_Cons [of "map f xs" c cs] by simp
    finally show ?thesis .
  qed
qed

lemma collect_investments:
  "collect ps = Inr children \<Longrightarrow> map investment_of children = map fst ps"
proof (induction ps arbitrary: children)
  case Nil
  then show ?case by simp
next
  case (Cons p ps)
  obtain c r where p: "p = (c, r)" by (cases p)
  from Cons.prems p obtain site rest where rest: "collect ps = Inr rest"
    and ch: "children = \<lparr>name = name c, entid = entid c, funded_ratio = funded_ratio c,
        website = site\<rparr> # rest"
    by (auto split: sum.splits)
  from Cons.IH [OF rest] ch p show ?case by (simp add: investment_of_def)
qed

lemma set_sort_reverse: "set (sort_reverse f xs) = set xs"
  by (simp add: sort_reverse_def)

lemma sorted_sort_reverse:
  "sorted_wrt (\<lambda>a b. f b \<le> f a) (sort_reverse f xs)"
proof -
  have "sorted (map f (sort_key f (rev xs)))" by (rule sorted_sort_key)
  then have "sorted_wrt (\<lambda>a b. f a \<le> f b) (sort_key f (rev xs))"
    by (simp add: sorted_map)
  then show ?thesis by (simp add: sort_reverse_def sorted_wrt_rev)
qed

lemma stable_sort_reverse:
  "filter (\<lambda>x. f x = p) (sort_reverse f xs) = filter (\<lambda>x. f x = p) xs"
  by (simp add: sort_reverse_def rev_filter [symmetric] sort_key_stable)

lemma pool_step_length:
  "length (fst (pool_step w c cs mw pool choice)) = length (fst pool)"
  by (cases pool) (simp add: pool_step_def Let_def split: list.splits prod.splits)

lemma pool_steps_length:
  "length (fst (foldl (pool_step w c cs mw) pool choices)) = length (fst pool)"
  by (induction choices arbitrary: pool) (simp_all add: pool_step_length)

lemma finish_all_length: "length (fst (finish_all w c ps st)) = length ps"
proof (induction ps arbitrary: st)
  case Nil
  then show ?case by simp
next
  case (Cons p ps)
  obtain x ph where p: "p = (x, ph)" by (cases p)
  obtain r st1 where f: "finish w c x ph st = (r, st1)" by (cases "finish w c x ph st")
  obtain rs st2 where fa: "finish_all w c ps st1 = (rs, st2)" by (cases "finish_all w c ps st1")
  from Cons.IH [of st1] fa have "length rs = length ps" by simp
  with p f fa show ?case by simp
qed

lemma run_pool_length: "length (fst (run_pool w st c cs mw)) = length cs"
proof -
  obtain phases st1 where f: "foldl (pool_step w c cs mw) (map (\<lambda>c. Waiting) cs, st)
      (thread_schedule w (length (requests st))) = (phases, st1)"
    by (cases "foldl (pool_step w c cs mw) (map (\<lambda>c. Waiting) cs, st)
      (thread_schedule w (length (requests st)))")
  with pool_steps_length [of w c cs mw "(map (\<lambda>c. Waiting) cs, st)"
      "thread_schedule w (length (requests st))"]
  have "length phases = length cs" by simp
  with f show ?thesis by (simp add: run_pool_def finish_all_length)
qed

lemma fan_out_collected:
  assumes "fst (fan_out w st c cs mw) = Inr children"
  shows "\<exists>collected. children = sort_reverse funded_ratio collected
           \<and> collect (pick_order (as_completed_order w (length (requests st)))
                 (zip cs (fst (run_pool w st c cs mw)))) = Inr collected
           \<and> map investment_of collected
               = pick_order (as_completed_order w (length (requests st))) cs"
proof -
  obtain outcomes st1 where r: "run_pool w st c cs mw = (outcomes, st1)"
    by (cases "run_pool w st c cs mw")
  let ?order = "as_completed_order w (length (requests st))"
  from assms r obtain collected where col: "collect (pick_order ?order (zip cs outcomes)) = Inr collected"
    and ch: "children = sort_reverse funded_ratio collected"
    by (auto simp: fan_out_def split: sum.splits)
  have len: "length outcomes = length cs" using run_pool_length [of w st c cs mw] r by simp
  have "map investment_of collected = map fst (pick_order ?order (zip cs outcomes))"
    using col by (rule collect_investments)
  also have "\<dots> = pick_order ?order (map fst (zip cs outcomes))" by (rule pick_order_map)
  also have "map fst (zip cs outcomes) = cs" using len by simp
  finally show ?thesis using col ch r by auto
qed

lemma fan_out_ratios:
  assumes "fst (fan_out w st c cs mw) = Inr children"
  shows "set (map funded_ratio children) = set (map funded_ratio cs)"
proof -
  from fan_out_collected [OF assms] obtain collected
    where ch: "children = sort_reverse funded_ratio collected"
      and m: "map investment_of collected
               = pick_order (as_completed_order w (length (requests st))) cs"
    by blast
  have "map funded_ratio collected = map funded_ratio (map investment_of collected)"
    by (simp add: investment_of_def o_def)
  then have "set (map funded_ratio collected) = set (map funded_ratio cs)"
    unfolding m by (simp add: set_pick_order)
  with ch show ?thesis by (simp add: set_sort_reverse)
qed

lemma subsidiaries_threshold:
  assumes "fst (subsidiaries w st pn i c (Some t) mw) = Inr children"
  shows "list_all (\<lambda>x. t \<le> funded_ratio x) children"
proof (cases "0 \<le> t \<and> t \<le> 100")
  case False
  with assms show ?thesis by (simp add: subsidiaries_def)
next
  case True
  obtain r st1 where q: "query_equity_investment w st i c t = (r, st1)"
    by (cases "query_equity_investment w st i c t")
  show ?thesis
  proof (cases r)
    case (Inl e)
    with assms True q show ?thesis by (simp add: subsidiaries_def)
  next
    case (Inr cs)
    with q have cs: "list_all (\<lambda>r. t \<le> funded_ratio r) cs"
      using query_threshold [of w st i c t cs] by simp
    show ?thesis
    proof (cases "cs = [] \<or> mw \<le> 0")
      case True
      with assms \<open>0 \<le> t \<and> t \<le> 100\<close> q Inr show ?thesis
        by (auto simp: subsidiaries_def split: if_splits)
    next
      case False
      with assms \<open>0 \<le> t \<and> t \<le> 100\<close> q Inr
      have "fst (fan_out w st1 c cs mw) = Inr children"
        by (auto simp: subsidiaries_def split: prod.splits sum.splits)
      then have "set (map funded_ratio children) = set (map funded_ratio cs)"
        by (rule fan_out_ratios)
      then have "funded_ratio ` set children = funded_ratio ` set cs" by simp
      then have "\<forall>x\<in>set children. \<exists>r\<in>set cs. funded_ratio x = funded_ratio r"
        by (metis imageE imageI)
      with cs show ?thesis by (auto simp: list_all_iff)
    qed
  qed
qed

text \<open>
  Claim C6. Every record that the equity graph query returns has a percentage at or
  above the threshold, and so has every child of a lookup result, which is what the
  report writer turns into child rows.
\<close>

theorem threshold_invariant:
  "(fst (query_equity_investment w st i c t) = Inr rs \<longrightarrow> list_all (\<lambda>r. t \<le> funded_ratio r) rs)
   \<and> (fst (fetch_official_website w st k c (Some t) mw) = Inr result
        \<longrightarrow> list_all (\<lambda>x. t \<le> funded_ratio x) (equity_investments result))"
proof (intro conjI impI)
  assume "fst (query_equity_investment w st i c t) = Inr rs"
  then show "list_all (\<lambda>r. t \<le> funded_ratio r) rs" by (rule query_threshold)
next
  assume a: "fst (fetch_official_website w st k c (Some t) mw) = Inr result"
  show "list_all (\<lambda>x. t \<le> funded_ratio x) (equity_investments result)"
  proof (cases "get_ent_info w st k c")
    case (Pair r st1)
    show ?thesis
    proof (cases r)
      case (Inl e)
      with a Pair show ?thesis by (simp add: fetch_official_website_def)
    next
      case (Inr found)
      show ?thesis
      proof (cases found)
        case None
        with a Pair Inr show ?thesis by (auto simp: fetch_official_website_def)
      next
        case (Some p)
        obtain pn pid where p: "p = (pn, pid)" by (cases p)
        obtain r2 st2 where g: "get_official_website w st1 pn pid c = (r2, st2)"
          by (cases "get_official_website w st1 pn pid c")
        obtain r3 st3 where s: "subsidiaries w st2 pn pid c (Some t) mw = (r3, st3)"
          by (cases "subsidiaries w st2 pn pid c (Some t) mw")
        from a Pair Inr Some p g s have "r3 = Inr (equity_investments result)"
          by (cases r2; cases r3) (auto simp: fetch_official_website_def)
        with s show ?thesis
          using subsidiaries_threshold [of w st2 pn pid c t mw "equity_investments result"]
          by simp
      qed
    qed
  qed
qed

text \<open>Children at 30 and at 60 percent with a threshold of 50: the one at 60 is returned.\<close>

theorem threshold_invariant_witness:
  "fst (query_equity_investment two_children_world initial_state (JStr (str ''e1'')) (str ''sid'') 50)
     = Inr [\<lparr>name = JStr (str ''A''), entid = JStr (str ''a1''), funded_ratio = 60\<rparr>]
   \<and> fst (fetch_official_website two_children_world initial_state (str ''Acme'') (str ''sid'') (Some 50) 5)
     = Inr \<lparr>parent_name = JStr (str ''Acme''), official_website = None,
        equity_investments =
          [\<lparr>name = JStr (str ''A''), entid = JStr (str ''a1''), funded_ratio = 60, website = None\<rparr>]\<rparr>
   \<and> list_all (\<lambda>x. 50 \<le> funded_ratio x) [\<lparr>name = JStr (str ''A''), entid = JStr (str ''a1''), funded_ratio = 60, website = None\<rparr>]"
  using threshold_invariant [of two_children_world initial_state "JStr (str ''e1'')" "str ''sid''" 50
     "[\<lparr>name = JStr (str ''A''), entid = JStr (str ''a1''), funded_ratio = 60\<rparr>]" "str ''Acme''" 5
     "\<lparr>parent_name = JStr (str ''Acme''), official_website = None,
        equity_investments =
          [\<lparr>name = JStr (str ''A''), entid = JStr (str ''a1''), funded_ratio = 60, website = None\<rparr>]\<rparr>"]
  by (simp add: two_children_world_def eval_defs)

subsection \<open>Order of the children\<close>

text \<open>
  A fan-out returns its children unless the print of a child's name in the handler
  of line 185 raises, and so whenever every name can be printed.
\<close>

lemma collect_returns:
  "\<forall>p\<in>set ps. py_print (name (fst p)) = Inr () \<Longrightarrow> \<exists>children. collect ps = Inr children"
proof (induction ps)
  case Nil
  then show ?case by simp
next
  case (Cons p ps)
  obtain c r where p: "p = (c, r)" by (cases p)
  from Cons obtain children where "collect ps = Inr children" by auto
  moreover from Cons.prems p have "py_print (name c) = Inr ()" by simp
  ultimately show ?case using p by (cases r) simp_all
qed

lemma fan_out_returns:
  assumes "\<forall>x\<in>set cs. py_print (name x) = Inr ()"
  shows "\<exists>children. fst (fan_out w st c cs mw) = Inr children"
proof -
  obtain outcomes st1 where r: "run_pool w st c cs mw = (outcomes, st1)"
    by (cases "run_pool w st c cs mw")
  let ?ps = "pick_order (as_completed_order w (length (requests st))) (zip cs outcomes)"
  have "\<forall>p\<in>set ?ps. py_print (name (fst p)) = Inr ()"
  proof
    fix p assume "p \<in> set ?ps"
    then have "(fst p, snd p) \<in> set (zip cs outcomes)" by (simp add: set_pick_order)
    then have "fst p \<in> set cs" by (rule set_zip_leftD)
    with assms show "py_print (name (fst p)) = Inr ()" by simp
  qed
  then obtain children where "collect ?ps = Inr children" using collect_returns by blast
  with r show ?thesis by (simp add: fan_out_def)
qed

text \<open>
  Claim C2, as the code has it. Whatever the threads do and whatever order the futures
  are yielded in, the children that a fan-out returns are sorted by percentage,
  highest first, and the children of one percentage stand in the order in which
  their futures were yielded.
\<close>

theorem fan_out_order:
  assumes "fst (fan_out w st c cs mw) = Inr children"
  shows "sorted_wrt (\<lambda>a b. funded_ratio b \<le> funded_ratio a) children
   \<and> map investment_of (filter (\<lambda>x. funded_ratio x = p) children)
       = filter (\<lambda>x. funded_ratio x = p) (pick_order (as_completed_order w (length (requests st))) cs)"
proof -
  from fan_out_collected [OF assms] obtain collected
    where ch: "children = sort_reverse funded_ratio collected"
      and m: "map investment_of collected
               = pick_order (as_completed_order w (length (requests st))) cs"
    by blast
  have "map investment_of (filter (\<lambda>x. funded_ratio x = p) collected)
          = filter (\<lambda>x. funded_ratio x = p) (map investment_of collected)"
    by (simp add: filter_map o_def investment_of_def)
  with m ch show ?thesis
    by (simp add: sorted_sort_reverse stable_sort_reverse)
qed

text \<open>
  The fan-out over A and B, both at 50 percent, with the future of B yielded first.
\<close>

theorem fan_out_order_witness:
  "fst (fan_out tie_world initial_state (str ''sid'')
          [\<lparr>name = JStr (str ''A''), entid = JStr (str ''a1''), funded_ratio = 50\<rparr>,
           \<lparr>name = JStr (str ''B''), entid = JStr (str ''b1''), funded_ratio = 50\<rparr>] 5)
     = Inr [\<lparr>name = JStr (str ''B''), entid = JStr (str ''b1''), funded_ratio = 50, website = None\<rparr>,
            \<lparr>name = JStr (str ''A''), entid = JStr (str ''a1''), funded_ratio = 50, website = None\<rparr>]
   \<and> pick_order (as_completed_order tie_world (length (requests initial_state)))
          [\<lparr>name = JStr (str ''A''), entid = JStr (str ''a1''), funded_ratio = 50\<rparr>,
           \<lparr>name = JStr (str ''B''), entid = JStr (str ''b1''), funded_ratio = 50\<rparr>]
     = [\<lparr>name = JStr (str ''B''), entid = JStr (str ''b1''), funded_ratio = 50\<rparr>,
        \<lparr>name = JStr (str ''A''), entid = JStr (str ''a1''), funded_ratio = 50\<rparr>]"
  using fan_out_order [of tie_world initial_state "str ''sid''"
      "[\<lparr>name = JStr (str ''A''), entid = JStr (str ''a1''), funded_ratio = 50\<rparr>,
        \<lparr>name = JStr (str ''B''), entid = JStr (str ''b1''), funded_ratio = 50\<rparr>]" 5
      "[\<lparr>name = JStr (str ''B''), entid = JStr (str ''b1''), funded_ratio = 50, website = None\<rparr>,
        \<lparr>name = JStr (str ''A''), entid = JStr (str ''a1''), funded_ratio = 50, website = None\<rparr>]" 50]
  by (simp add: tie_world_def eval_defs)

text \<open>
  The query returns A before B, both at 50 percent; the future of B is yielded first,
  and B stands before A in the result.
\<close>

theorem equal_percentages_counterexample:
  "fst (query_equity_investment tie_world initial_state (JStr (str ''e1'')) (str ''sid'') 0)
     = Inr [\<lparr>name = JStr (str ''A''), entid = JStr (str ''a1''), funded_ratio = 50\<rparr>,
            \<lparr>name = JStr (str ''B''), entid = JStr (str ''b1''), funded_ratio = 50\<rparr>]
   \<and> fst (fetch_official_website tie_world initial_state (str ''Acme'') (str ''sid'') (Some 0) 5)
     = Inr \<lparr>parent_name = JStr (str ''Acme''), official_website = None,
        equity_investments =
          [\<lparr>name = JStr (str ''B''), entid = JStr (str ''b1''), funded_ratio = 50, website = None\<rparr>,
           \<lparr>name = JStr (str ''A''), entid = JStr (str ''a1''), funded_ratio = 50, website = None\<rparr>]\<rparr>"
  by (simp add: tie_world_def eval_defs)

subsection \<open>Exceptions that leave a lookup\<close>

text \<open>
  Claim C3. A percentage with two full stops passes the guard of line 89 and \<open>float\<close>
  raises \<open>ValueError\<close>, which no handler catches: the batch ends with the exception
  and writes no report, also for the keys that come after.
\<close>

theorem malformed_percentage_aborts_batch:
  "run_batch malformed_world [str ''Acme'', str ''Other''] (str ''sid'') 0 5 = Inl ValueError"
  by (simp add: malformed_world_def eval_defs)

subsection \<open>Totality of the extractor\<close>





lemma body_catches_request_exception:
  "quote n = Inr q \<Longrightarrow> latin1 c
     \<Longrightarrow> get_page w (length (requests st)) (PageReq q i c) = RequestException
     \<Longrightarrow> fst (get_official_website_body w st n i c) = Inr None"
  by (simp add: get_official_website_body_def)

lemma extract_catches_parser:
  "py_find html_text marker = Some i
     \<Longrightarrow> soup_find_a w (take 1000 (drop i html_text)) = ParserRaised
     \<Longrightarrow> extract_href w html_text = None"
  by (simp add: extract_href_def)




lemma run_pool_zip:
  "map fst (zip cs (fst (run_pool w st c cs mw))) = cs"
  using run_pool_length [of w st c cs mw] by simp




subsection \<open>Memoization of the extractor\<close>






































subsection \<open>Conversion of a decimal string to an integer\<close>










subsection \<open>Parsing of the ownership percentage\<close>

















end
